theory Spec2Isabelle
  imports Main "HOL-Library.Multiset"
begin

section \<open>Data model\<close>

text \<open>
  The service module works on three kinds of objects. \<open>User\<close> is the imported interface
  (\<open>id, name, avatar, grade, gender\<close>); the response object is the literal pushed by
  \<open>submitResponse\<close>; the joined row is the literal built inside \<open>fetchAllResponses\<close>.
  Field names follow the source; the fields of \<open>User\<close> carry the prefix \<open>u_\<close> and those
  of the stored response the prefix \<open>r_\<close> (the names the source gives the bound variables
  \<open>u\<close> and \<open>r\<close>), so that the row can keep the bare names. JavaScript numbers that hold
  ids, scores and epoch milliseconds are integers here.
\<close>

datatype iso8601 = ISO int
  \<comment> \<open>A string produced by \<open>toISOString\<close>, represented by the instant (epoch milliseconds)
      it denotes. Strings that \<open>new Date(s)\<close> cannot parse are not in this type.\<close>

record User =
  u_id :: int
  u_name :: string
  u_avatar :: string
  u_grade :: string
  u_gender :: string

record ResponseRecord =
  r_id :: int
  r_user_id :: int
  r_question_id :: int
  r_score :: int
  r_timestamp :: iso8601

record JoinedReportRow =
  user_id :: int
  user_name :: string
  user_avatar :: string
  user_grade :: string
  user_gender :: string
  question_id :: int
  score :: int
  timestamp :: iso8601

record Ack =
  ack_id :: int
  status :: string

record Report =
  source :: string
  data :: "JoinedReportRow list"

datatype exn = AbortError | NetworkError | Error string | SyntaxError

section \<open>The platform: clock, local storage, JSON, fetch, sort\<close>

subsection \<open>Local storage and JSON\<close>

text \<open>
  A stored string is seen through \<open>JSON.parse\<close>: it is the empty string, a string that is
  not JSON text (\<open>JSON.parse\<close> throws \<open>SyntaxError\<close>), or the JSON text of a value. The
  two keys the module uses hold arrays of the type the source declares for them
  (\<open>User[]\<close> and the response objects); every other key is kept as an opaque string.
  \<open>None\<close> is the \<open>null\<close> that \<open>getItem\<close> returns for an absent key. The store has no
  quota: \<open>setItem\<close> always succeeds.
\<close>

datatype 'a item = EmptyString | NotJSON | JSON 'a

record localStorage =
  sel_users :: "User list item option"
  sel_responses :: "ResponseRecord list item option"
  other_keys :: "string \<rightharpoonup> string"

fun or_default :: "'a list item option \<Rightarrow> 'a list item" where
  \<comment> \<open>\<open>localStorage.getItem(k) || '[]'\<close>: \<open>null\<close> and the empty string are falsy.\<close>
  "or_default None = JSON []"
| "or_default (Some EmptyString) = JSON []"
| "or_default (Some t) = t"

fun JSON_parse :: "'a item \<Rightarrow> exn + 'a" where
  "JSON_parse (JSON v) = Inr v"
| "JSON_parse EmptyString = Inl SyntaxError"
| "JSON_parse NotJSON = Inl SyntaxError"

definition JSON_stringify :: "'a \<Rightarrow> 'a item" where
  "JSON_stringify v = JSON v"

subsection \<open>The world: storage and wall clock\<close>

text \<open>
  The wall clock is read by \<open>Date.now()\<close> and by \<open>new Date()\<close>. The \<open>k\<close>-th reading of a
  run returns \<open>ticks k\<close>; nothing is assumed about how the readings relate.
\<close>

record world =
  storage :: localStorage
  ticks :: "nat \<Rightarrow> int"
  reads :: nat

definition Date_now :: "world \<Rightarrow> int \<times> world" where
  "Date_now w = (ticks w (reads w), w\<lparr>reads := Suc (reads w)\<rparr>)"

definition toISOString :: "int \<Rightarrow> iso8601" where
  "toISOString t = ISO t"

fun getTime :: "iso8601 \<Rightarrow> int" where
  \<comment> \<open>\<open>new Date(s).getTime()\<close>\<close>
  "getTime (ISO t) = t"

definition setItem_sel_users :: "User list item \<Rightarrow> world \<Rightarrow> world" where
  "setItem_sel_users t w = w\<lparr>storage := (storage w)\<lparr>sel_users := Some t\<rparr>\<rparr>"

definition setItem_sel_responses :: "ResponseRecord list item \<Rightarrow> world \<Rightarrow> world" where
  "setItem_sel_responses t w = w\<lparr>storage := (storage w)\<lparr>sel_responses := Some t\<rparr>\<rparr>"

definition removeItem_sel_users :: "world \<Rightarrow> world" where
  "removeItem_sel_users w = w\<lparr>storage := (storage w)\<lparr>sel_users := None\<rparr>\<rparr>"

definition removeItem_sel_responses :: "world \<Rightarrow> world" where
  "removeItem_sel_responses w = w\<lparr>storage := (storage w)\<lparr>sel_responses := None\<rparr>\<rparr>"

subsection \<open>The network\<close>

text \<open>
  What the remote side does with one request: the \<open>fetch\<close> promise settles after some
  milliseconds, either resolving with a response or rejecting (network error), or it
  stays pending. A response has the \<open>ok\<close> flag (status in the 2xx range) and a body;
  \<open>res.json()\<close> rejects with \<open>SyntaxError\<close> when the body is not JSON (\<open>None\<close>).
\<close>

record 'a response =
  ok :: bool
  body :: "'a option"

datatype 'a settlement = Resolves "'a response" | Rejects

datatype 'a network = Settles nat "'a settlement" | Pending

definition json :: "'a response \<Rightarrow> exn + 'a" where
  "json res = (case body res of None \<Rightarrow> Inl SyntaxError | Some v \<Rightarrow> Inr v)"

definition fetchWithTimeout :: "'a network \<Rightarrow> nat \<Rightarrow> exn + 'a response" where
  \<comment> \<open>The abort timer fires after \<open>timeout\<close> ms; a settlement that has not arrived before
      it is lost and the awaited \<open>fetch\<close> rejects with \<open>AbortError\<close>, which is rethrown.
      \<open>net\<close> is what the remote side does with the request (\<open>url\<close>, \<open>options\<close>) of the
      call. The default bound of 1000 ms is never used: every caller passes its own.\<close>
  "fetchWithTimeout net timeout =
     (case net of
        Pending \<Rightarrow> Inl AbortError
      | Settles ms s \<Rightarrow>
          if ms < timeout
          then (case s of Resolves response \<Rightarrow> Inr response | Rejects \<Rightarrow> Inl NetworkError)
          else Inl AbortError)"

subsection \<open>Array.prototype.sort\<close>

text \<open>
  The engine's algorithm is not fixed, but the sort is stable and, for a consistent
  comparator, its result is determined: the elements in comparator order, equal ones in
  their original order. \<open>Array_sort\<close> is the reference implementation of that result:
  each element is placed before the first element it does not compare greater than.
\<close>

fun place :: "('a \<Rightarrow> 'a \<Rightarrow> int) \<Rightarrow> 'a \<Rightarrow> 'a list \<Rightarrow> 'a list" where
  "place cmp x [] = [x]"
| "place cmp x (y # ys) = (if cmp x y \<le> 0 then x # y # ys else y # place cmp x ys)"

definition Array_sort :: "('a \<Rightarrow> 'a \<Rightarrow> int) \<Rightarrow> 'a list \<Rightarrow> 'a list" where
  "Array_sort cmp xs = foldr (place cmp) xs []"

section \<open>The service module\<close>

subsection \<open>createUser\<close>

text \<open>
  A \<open>try\<close> block of an \<open>async\<close> function is modelled by a value \<open>exn + (exn + 'a)\<close>:
  \<open>Inl e\<close> is an exception thrown inside the block, which the \<open>catch\<close> clause handles;
  \<open>Inr p\<close> is the block's \<open>return\<close>, where \<open>p\<close> is the settlement of the returned
  promise. \<open>return res.json()\<close> is not awaited inside the block, so a rejection of
  \<open>res.json()\<close> is the rejection of the whole call and never reaches \<open>catch\<close>.
  \<open>console.warn\<close> is not modelled.
\<close>

definition createUser_try :: "User network \<Rightarrow> exn + (exn + User)" where
  "createUser_try net =
     (case fetchWithTimeout net 1500 of
        Inl error \<Rightarrow> Inl error
      | Inr res \<Rightarrow>
          if \<not> ok res then Inl (Error ''Failed to create user'')
          else Inr (json res))"

definition createUser_catch ::
  "world \<Rightarrow> string \<Rightarrow> string \<Rightarrow> string \<Rightarrow> string \<Rightarrow> (exn + User) \<times> world" where
  "createUser_catch w name avatar grade gender =
     (case JSON_parse (or_default (sel_users (storage w))) of
        Inl e \<Rightarrow> (Inl e, w)
      | Inr users \<Rightarrow>
          (let (now, w1) = Date_now w;
               newUser = \<lparr>u_id = now, u_name = name, u_avatar = avatar,
                          u_grade = grade, u_gender = gender\<rparr>;
               users' = users @ [newUser];
               w2 = setItem_sel_users (JSON_stringify users') w1
           in (Inr newUser, w2)))"

definition createUser ::
  "world \<Rightarrow> User network \<Rightarrow> string \<Rightarrow> string \<Rightarrow> string \<Rightarrow> string \<Rightarrow> (exn + User) \<times> world" where
  "createUser w net name avatar grade gender =
     (case createUser_try net of
        Inr p \<Rightarrow> (p, w)
      | Inl error \<Rightarrow> createUser_catch w name avatar grade gender)"

subsection \<open>submitResponse\<close>

definition submitResponse_try :: "Ack network \<Rightarrow> exn + (exn + Ack)" where
  "submitResponse_try net =
     (case fetchWithTimeout net 800 of
        Inl error \<Rightarrow> Inl error
      | Inr res \<Rightarrow>
          if \<not> ok res then Inl (Error ''Failed to submit response'')
          else Inr (json res))"

definition submitResponse_catch :: "world \<Rightarrow> int \<Rightarrow> int \<Rightarrow> int \<Rightarrow> (exn + Ack) \<times> world" where
  "submitResponse_catch w userId questionId score' =
     (case JSON_parse (or_default (sel_responses (storage w))) of
        Inl e \<Rightarrow> (Inl e, w)
      | Inr responses \<Rightarrow>
          (let (now1, w1) = Date_now w;
               (now2, w2) = Date_now w1;
               responses' = responses @
                 [\<lparr>r_id = now1, r_user_id = userId, r_question_id = questionId,
                   r_score = score', r_timestamp = toISOString now2\<rparr>];
               w3 = setItem_sel_responses (JSON_stringify responses') w2;
               (now3, w4) = Date_now w3
           in (Inr \<lparr>ack_id = now3, status = ''saved_local''\<rparr>, w4)))"

definition submitResponse :: "world \<Rightarrow> Ack network \<Rightarrow> int \<Rightarrow> int \<Rightarrow> int \<Rightarrow> (exn + Ack) \<times> world" where
  "submitResponse w net userId questionId score' =
     (case submitResponse_try net of
        Inr p \<Rightarrow> (p, w)
      | Inl error \<Rightarrow> submitResponse_catch w userId questionId score')"

subsection \<open>fetchAllResponses\<close>

text \<open>
  Here \<open>res.json()\<close> is awaited inside the \<open>try\<close> block, so its rejection is caught.
\<close>

definition fetchAllResponses_try :: "JoinedReportRow list network \<Rightarrow> exn + (exn + Report)" where
  "fetchAllResponses_try net =
     (case fetchWithTimeout net 2000 of
        Inl error \<Rightarrow> Inl error
      | Inr res \<Rightarrow>
          if \<not> ok res then Inl (Error ''Failed to fetch responses'')
          else (case json res of
                  Inl error \<Rightarrow> Inl error
                | Inr data' \<Rightarrow> Inr (Inr \<lparr>source = ''DB'', data = data'\<rparr>)))"

definition default_avatar :: string where
  \<comment> \<open>The bytes (UTF-8) of the string literal in the source.\<close>
  "default_avatar =
     [CHR 0xC3, CHR 0xB0, CHR 0xC5, CHR 0xB8, CHR 0xE2, CHR 0x84, CHR 0xA2,
      CHR 0xE2, CHR 0x80, CHR 0x9A]"

definition joined_row :: "User list \<Rightarrow> ResponseRecord \<Rightarrow> JoinedReportRow" where
  \<comment> \<open>The arrow function passed to \<open>responses.map\<close>.\<close>
  "joined_row users r =
     (let user = find (\<lambda>u. u_id u = r_user_id r) users
      in \<lparr>user_id = (case user of Some u \<Rightarrow> u_id u | None \<Rightarrow> - 1),
          user_name = (case user of Some u \<Rightarrow> u_name u | None \<Rightarrow> ''Unknown (Local)''),
          user_avatar = (case user of Some u \<Rightarrow> u_avatar u | None \<Rightarrow> default_avatar),
          user_grade = (case user of Some u \<Rightarrow> u_grade u | None \<Rightarrow> ''''),
          user_gender = (case user of Some u \<Rightarrow> u_gender u | None \<Rightarrow> ''''),
          question_id = r_question_id r,
          score = r_score r,
          timestamp = r_timestamp r\<rparr>)"

definition by_timestamp_desc :: "JoinedReportRow \<Rightarrow> JoinedReportRow \<Rightarrow> int" where
  \<comment> \<open>The comparator passed to \<open>joined.sort\<close>.\<close>
  "by_timestamp_desc a b = getTime (timestamp b) - getTime (timestamp a)"

definition fetchAllResponses_catch :: "world \<Rightarrow> (exn + Report) \<times> world" where
  "fetchAllResponses_catch w =
     (case JSON_parse (or_default (sel_users (storage w))) of
        Inl e \<Rightarrow> (Inl e, w)
      | Inr users \<Rightarrow>
          (case JSON_parse (or_default (sel_responses (storage w))) of
             Inl e \<Rightarrow> (Inl e, w)
           | Inr responses \<Rightarrow>
               (let joined = map (joined_row users) responses;
                    sorted = Array_sort by_timestamp_desc joined
                in (Inr \<lparr>source = ''LOCAL'', data = sorted\<rparr>, w))))"

definition fetchAllResponses :: "world \<Rightarrow> JoinedReportRow list network \<Rightarrow> (exn + Report) \<times> world" where
  "fetchAllResponses w net =
     (case fetchAllResponses_try net of
        Inr p \<Rightarrow> (p, w)
      | Inl error \<Rightarrow> fetchAllResponses_catch w)"

subsection \<open>clearLocalData\<close>

definition clearLocalData :: "world \<Rightarrow> world" where
  "clearLocalData w = removeItem_sel_responses (removeItem_sel_users w)"

subsection \<open>When a \<open>try\<close> block falls through to \<open>catch\<close>\<close>

text \<open>
  Each \<open>try\<close> block throws in two places before its \<open>return\<close>: the awaited
  \<open>fetchWithTimeout\<close> throws (abort or network error), or the response is not \<open>ok\<close>.
  \<open>remote_failed net timeout\<close> says that one of the two happens.
\<close>

definition remote_failed :: "'a network \<Rightarrow> nat \<Rightarrow> bool" where
  "remote_failed net timeout =
     (case fetchWithTimeout net timeout of Inl error \<Rightarrow> True | Inr res \<Rightarrow> \<not> ok res)"

abbreviation newer_first :: "JoinedReportRow \<Rightarrow> JoinedReportRow \<Rightarrow> bool" where
  "newer_first a b \<equiv> getTime (timestamp b) \<le> getTime (timestamp a)"

subsection \<open>Example data\<close>

text \<open>
  The objects of the join example (a user with id 1 and name A, one response of that
  user and one response whose \<open>user_id\<close> 999 matches no user), a world that stores them,
  and a world whose \<open>sel_users\<close> entry is not JSON. The clock of both worlds returns
  0, 1, 2, ... on successive readings.
\<close>

definition example_user :: User where
  "example_user = \<lparr>u_id = 1, u_name = ''A'', u_avatar = ''a'', u_grade = ''G3'', u_gender = ''F''\<rparr>"

definition example_known :: ResponseRecord where
  "example_known = \<lparr>r_id = 10, r_user_id = 1, r_question_id = 5, r_score = 3, r_timestamp = ISO 1000\<rparr>"

definition example_dangling :: ResponseRecord where
  "example_dangling = \<lparr>r_id = 11, r_user_id = 999, r_question_id = 5, r_score = 3, r_timestamp = ISO 2000\<rparr>"

definition example_world :: world where
  "example_world =
     \<lparr>storage = \<lparr>sel_users = Some (JSON [example_user]),
                 sel_responses = Some (JSON [example_known, example_dangling]),
                 other_keys = Map.empty\<rparr>,
      ticks = int, reads = 0\<rparr>"

definition corrupt_world :: world where
  "corrupt_world =
     \<lparr>storage = \<lparr>sel_users = Some NotJSON, sel_responses = None, other_keys = Map.empty\<rparr>,
      ticks = int, reads = 0\<rparr>"

section \<open>Properties of the sort\<close>

lemma mset_place: "mset (place cmp x xs) = add_mset x (mset xs)"
  by (induction xs) simp_all

lemma mset_Array_sort: "mset (Array_sort cmp xs) = mset xs"
  unfolding Array_sort_def by (induction xs) (simp_all add: mset_place)

lemma length_Array_sort: "length (Array_sort cmp xs) = length xs"
  using mset_Array_sort [of cmp xs] by (metis size_mset)

lemma set_place: "set (place cmp x xs) = insert x (set xs)"
  by (induction xs) auto

lemma place_newer_first:
  "sorted_wrt newer_first xs \<Longrightarrow> sorted_wrt newer_first (place by_timestamp_desc x xs)"
proof (induction xs)
  case Nil
  show ?case by simp
next
  case (Cons y ys)
  show ?case
  proof (cases "by_timestamp_desc x y \<le> 0")
    case True
    then have xy: "newer_first x y" by (simp add: by_timestamp_desc_def)
    have "\<forall>z\<in>set ys. newer_first y z" using Cons.prems by simp
    with xy have "\<forall>z\<in>set (y # ys). newer_first x z" by auto
    with Cons.prems True show ?thesis by simp
  next
    case False
    then have yx: "newer_first y x" by (simp add: by_timestamp_desc_def)
    have "sorted_wrt newer_first (place by_timestamp_desc x ys)"
      using Cons by simp
    moreover have "\<forall>z\<in>set (place by_timestamp_desc x ys). newer_first y z"
      using Cons.prems yx by (simp add: set_place)
    ultimately show ?thesis using False by simp
  qed
qed

lemma Array_sort_newer_first: "sorted_wrt newer_first (Array_sort by_timestamp_desc xs)"
  unfolding Array_sort_def by (induction xs) (simp_all add: place_newer_first)

text \<open>
  With the comparator of the report, \<open>Array_sort\<close> is the library's stable sort on the
  negated instant.
\<close>

lemma place_insort_key:
  "place by_timestamp_desc x xs = insort_key (\<lambda>r. - getTime (timestamp r)) x xs"
  by (induction xs) (simp_all add: by_timestamp_desc_def)

lemma Array_sort_stable:
  "Array_sort by_timestamp_desc xs = sort_key (\<lambda>r. - getTime (timestamp r)) xs"
  unfolding Array_sort_def sort_key_def
  by (induction xs) (simp_all add: place_insort_key)

section \<open>The fallback is taken exactly when the remote call failed\<close>

lemma createUser_try_failed:
  "remote_failed net 1500 \<Longrightarrow> \<exists>e. createUser_try net = Inl e"
  by (auto simp: remote_failed_def createUser_try_def split: sum.splits)

lemma submitResponse_try_failed:
  "remote_failed net 800 \<Longrightarrow> \<exists>e. submitResponse_try net = Inl e"
  by (auto simp: remote_failed_def submitResponse_try_def split: sum.splits)

lemma fetchAllResponses_try_failed:
  "remote_failed net 2000 \<Longrightarrow> \<exists>e. fetchAllResponses_try net = Inl e"
  by (auto simp: remote_failed_def fetchAllResponses_try_def split: sum.splits)

lemma createUser_failed:
  "remote_failed net 1500 \<Longrightarrow> createUser w net n a g ge = createUser_catch w n a g ge"
  using createUser_try_failed [of net] by (auto simp: createUser_def)

lemma submitResponse_failed:
  "remote_failed net 800 \<Longrightarrow> submitResponse w net u q s = submitResponse_catch w u q s"
  using submitResponse_try_failed [of net] by (auto simp: submitResponse_def)

lemma fetchAllResponses_failed:
  "remote_failed net 2000 \<Longrightarrow> fetchAllResponses w net = fetchAllResponses_catch w"
  using fetchAllResponses_try_failed [of net] by (auto simp: fetchAllResponses_def)

lemma fetchAllResponses_catch_parsed:
  assumes "JSON_parse (or_default (sel_users (storage w))) = Inr users"
    and "JSON_parse (or_default (sel_responses (storage w))) = Inr responses"
  shows "fetchAllResponses_catch w =
    (Inr \<lparr>source = ''LOCAL'',
          data = Array_sort by_timestamp_desc (map (joined_row users) responses)\<rparr>, w)"
  using assms by (simp add: fetchAllResponses_catch_def)

lemma find_first:
  "users = pre @ u # post \<Longrightarrow> P u \<Longrightarrow> \<forall>v\<in>set pre. \<not> P v \<Longrightarrow> find P users = Some u"
  by (induction pre arbitrary: users) auto

lemma Pending_failed: "remote_failed Pending timeout"
  by (simp add: remote_failed_def fetchWithTimeout_def)

lemma createUser_catch_parsed:
  assumes "JSON_parse (or_default (sel_users (storage w))) = Inr users"
  shows "createUser_catch w n a g ge =
    (Inr \<lparr>u_id = ticks w (reads w), u_name = n, u_avatar = a, u_grade = g, u_gender = ge\<rparr>,
     setItem_sel_users
       (JSON_stringify (users @
          [\<lparr>u_id = ticks w (reads w), u_name = n, u_avatar = a, u_grade = g, u_gender = ge\<rparr>]))
       (w\<lparr>reads := Suc (reads w)\<rparr>))"
  using assms by (simp add: createUser_catch_def Date_now_def Let_def)

lemma submitResponse_catch_parsed:
  assumes "JSON_parse (or_default (sel_responses (storage w))) = Inr responses"
  shows "submitResponse_catch w u q s =
    (Inr \<lparr>ack_id = ticks w (Suc (Suc (reads w))), status = ''saved_local''\<rparr>,
     (setItem_sel_responses
       (JSON_stringify (responses @
          [\<lparr>r_id = ticks w (reads w), r_user_id = u, r_question_id = q, r_score = s,
            r_timestamp = toISOString (ticks w (Suc (reads w)))\<rparr>]))
       (w\<lparr>reads := Suc (Suc (reads w))\<rparr>))\<lparr>reads := Suc (Suc (Suc (reads w)))\<rparr>)"
  using assms
  by (simp add: submitResponse_catch_def Date_now_def setItem_sel_responses_def)

section \<open>The report assembler\<close>

text \<open>
  Claim C1 (join correctness), as the code has it. When the remote call failed and both
  collections parse, \<open>fetchAllResponses\<close> returns exactly one row per stored response
  (the rows of \<open>joined_row\<close>, in some order). The row of a response carries the display
  fields of the first user whose id equals the response's \<open>user_id\<close>; when no user has
  that id the row has \<open>user_id = -1\<close>, blank grade and gender, the default avatar, and
  the name \<open>Unknown (Local)\<close>.
\<close>

theorem join_rows:
  assumes "remote_failed net 2000"
    and "JSON_parse (or_default (sel_users (storage w))) = Inr users"
    and "JSON_parse (or_default (sel_responses (storage w))) = Inr responses"
  shows "\<exists>rep. fst (fetchAllResponses w net) = Inr rep \<and>
           mset (data rep) = image_mset (joined_row users) (mset responses) \<and>
           (\<forall>r pre u post.
              users = pre @ u # post \<and> u_id u = r_user_id r \<and>
              (\<forall>v\<in>set pre. u_id v \<noteq> r_user_id r) \<longrightarrow>
              joined_row users r =
                \<lparr>user_id = r_user_id r, user_name = u_name u, user_avatar = u_avatar u,
                 user_grade = u_grade u, user_gender = u_gender u,
                 question_id = r_question_id r, score = r_score r,
                 timestamp = r_timestamp r\<rparr>) \<and>
           (\<forall>r. (\<forall>v\<in>set users. u_id v \<noteq> r_user_id r) \<longrightarrow>
              joined_row users r =
                \<lparr>user_id = - 1, user_name = ''Unknown (Local)'', user_avatar = default_avatar,
                 user_grade = '''', user_gender = '''',
                 question_id = r_question_id r, score = r_score r,
                 timestamp = r_timestamp r\<rparr>)"
proof -
  let ?rep = "\<lparr>source = ''LOCAL'',
          data = Array_sort by_timestamp_desc (map (joined_row users) responses)\<rparr>"
  have run: "fst (fetchAllResponses w net) = Inr ?rep"
    using assms by (simp add: fetchAllResponses_failed fetchAllResponses_catch_parsed)
  have rows: "mset (data ?rep) = image_mset (joined_row users) (mset responses)"
    by (simp add: mset_Array_sort)
  have found: "joined_row users r =
                \<lparr>user_id = r_user_id r, user_name = u_name u, user_avatar = u_avatar u,
                 user_grade = u_grade u, user_gender = u_gender u,
                 question_id = r_question_id r, score = r_score r,
                 timestamp = r_timestamp r\<rparr>"
    if "users = pre @ u # post" "u_id u = r_user_id r" "\<forall>v\<in>set pre. u_id v \<noteq> r_user_id r"
    for r pre u post
  proof -
    have "find (\<lambda>u. u_id u = r_user_id r) users = Some u"
      using that by (intro find_first [where pre = pre and post = post]) simp_all
    then show ?thesis using that(2) by (simp add: joined_row_def)
  qed
  have missing: "joined_row users r =
                \<lparr>user_id = - 1, user_name = ''Unknown (Local)'', user_avatar = default_avatar,
                 user_grade = '''', user_gender = '''',
                 question_id = r_question_id r, score = r_score r,
                 timestamp = r_timestamp r\<rparr>"
    if "\<forall>v\<in>set users. u_id v \<noteq> r_user_id r" for r
  proof -
    have "find (\<lambda>u. u_id u = r_user_id r) users = None"
      using that by (simp add: find_None_iff)
    then show ?thesis by (simp add: joined_row_def)
  qed
  from run rows found missing show ?thesis by blast
qed

theorem join_rows_witness:
  "remote_failed (Pending :: JoinedReportRow list network) 2000 \<and>
   JSON_parse (or_default (sel_users (storage example_world))) = Inr [example_user] \<and>
   JSON_parse (or_default (sel_responses (storage example_world))) =
     Inr [example_known, example_dangling] \<and>
   (\<exists>rep. fst (fetchAllResponses example_world Pending) = Inr rep \<and>
      mset (data rep) =
        {#joined_row [example_user] example_known, joined_row [example_user] example_dangling#}) \<and>
   user_name (joined_row [example_user] example_known) = ''A'' \<and>
   user_id (joined_row [example_user] example_known) = 1 \<and>
   user_name (joined_row [example_user] example_dangling) = ''Unknown (Local)'' \<and>
   user_id (joined_row [example_user] example_dangling) = - 1"
proof -
  have h1: "remote_failed (Pending :: JoinedReportRow list network) 2000"
    by (rule Pending_failed)
  have h2: "JSON_parse (or_default (sel_users (storage example_world))) = Inr [example_user]"
    by (simp add: example_world_def)
  have h3: "JSON_parse (or_default (sel_responses (storage example_world))) =
     Inr [example_known, example_dangling]"
    by (simp add: example_world_def)
  from join_rows [OF h1 h2 h3] obtain rep where
    run: "fst (fetchAllResponses example_world Pending) = Inr rep"
    and rows: "mset (data rep) =
        image_mset (joined_row [example_user]) (mset [example_known, example_dangling])"
    and found: "\<And>r pre u post. [example_user] = pre @ u # post \<Longrightarrow> u_id u = r_user_id r \<Longrightarrow>
              (\<forall>v\<in>set pre. u_id v \<noteq> r_user_id r) \<Longrightarrow>
              joined_row [example_user] r =
                \<lparr>user_id = r_user_id r, user_name = u_name u, user_avatar = u_avatar u,
                 user_grade = u_grade u, user_gender = u_gender u,
                 question_id = r_question_id r, score = r_score r,
                 timestamp = r_timestamp r\<rparr>"
    and missing: "\<And>r. (\<forall>v\<in>set [example_user]. u_id v \<noteq> r_user_id r) \<Longrightarrow>
              joined_row [example_user] r =
                \<lparr>user_id = - 1, user_name = ''Unknown (Local)'', user_avatar = default_avatar,
                 user_grade = '''', user_gender = '''',
                 question_id = r_question_id r, score = r_score r,
                 timestamp = r_timestamp r\<rparr>"
    by blast
  have known: "joined_row [example_user] example_known =
      \<lparr>user_id = r_user_id example_known, user_name = u_name example_user,
       user_avatar = u_avatar example_user, user_grade = u_grade example_user,
       user_gender = u_gender example_user, question_id = r_question_id example_known,
       score = r_score example_known, timestamp = r_timestamp example_known\<rparr>"
    by (rule found [of "[]" example_user "[]"])
       (simp_all add: example_user_def example_known_def)
  have dangling: "joined_row [example_user] example_dangling =
      \<lparr>user_id = - 1, user_name = ''Unknown (Local)'', user_avatar = default_avatar,
       user_grade = '''', user_gender = '''', question_id = r_question_id example_dangling,
       score = r_score example_dangling, timestamp = r_timestamp example_dangling\<rparr>"
    by (rule missing) (simp add: example_user_def example_dangling_def)
  have "\<exists>rep. fst (fetchAllResponses example_world Pending) = Inr rep \<and>
      mset (data rep) =
        {#joined_row [example_user] example_known, joined_row [example_user] example_dangling#}"
    using run rows by auto
  moreover have "user_name (joined_row [example_user] example_known) = ''A''"
    "user_id (joined_row [example_user] example_known) = 1"
    unfolding known by (simp_all add: example_user_def example_known_def)
  moreover have "user_name (joined_row [example_user] example_dangling) = ''Unknown (Local)''"
    "user_id (joined_row [example_user] example_dangling) = - 1"
    unfolding dangling by simp_all
  ultimately show ?thesis using h1 h2 h3 by blast
qed

text \<open>
  The placeholder name is \<open>Unknown (Local)\<close>, not \<open>Unknown\<close>: the report of the
  example world, whose second response has no matching user.
\<close>

theorem placeholder_name_counterexample:
  "fst (fetchAllResponses example_world Pending) =
     Inr \<lparr>source = ''LOCAL'',
          data = [\<lparr>user_id = - 1, user_name = ''Unknown (Local)'', user_avatar = default_avatar,
                   user_grade = '''', user_gender = '''', question_id = 5, score = 3,
                   timestamp = ISO 2000\<rparr>,
                  \<lparr>user_id = 1, user_name = ''A'', user_avatar = ''a'',
                   user_grade = ''G3'', user_gender = ''F'', question_id = 5, score = 3,
                   timestamp = ISO 1000\<rparr>]\<rparr> \<and>
   ''Unknown (Local)'' \<noteq> ''Unknown''"
  by (simp add: fetchAllResponses_def fetchAllResponses_try_def fetchWithTimeout_def
      fetchAllResponses_catch_def example_world_def example_user_def example_known_def
      example_dangling_def joined_row_def Array_sort_def by_timestamp_desc_def)

text \<open>
  Claim C5 (degraded mode). When the remote call failed and both collections parse,
  \<open>fetchAllResponses\<close> returns a report tagged \<open>LOCAL\<close> whose \<open>data\<close> has as many rows
  as there are stored responses, and leaves the world as it was.
\<close>

theorem fetchAllResponses_degraded:
  assumes "remote_failed net 2000"
    and "JSON_parse (or_default (sel_users (storage w))) = Inr users"
    and "JSON_parse (or_default (sel_responses (storage w))) = Inr responses"
  shows "\<exists>rep. fetchAllResponses w net = (Inr rep, w) \<and>
           source rep = ''LOCAL'' \<and> length (data rep) = length responses"
  using assms
  by (simp add: fetchAllResponses_failed fetchAllResponses_catch_parsed length_Array_sort)

theorem fetchAllResponses_degraded_witness:
  "remote_failed (Settles 5 (Resolves \<lparr>ok = False, body = None\<rparr>) :: JoinedReportRow list network) 2000 \<and>
   JSON_parse (or_default (sel_users (storage example_world))) = Inr [example_user] \<and>
   JSON_parse (or_default (sel_responses (storage example_world))) =
     Inr [example_known, example_dangling] \<and>
   (\<exists>rep. fetchAllResponses example_world (Settles 5 (Resolves \<lparr>ok = False, body = None\<rparr>)) =
            (Inr rep, example_world) \<and>
          source rep = ''LOCAL'' \<and>
          length (data rep) = length [example_known, example_dangling])"
proof -
  let ?net = "Settles 5 (Resolves \<lparr>ok = False, body = None\<rparr>) :: JoinedReportRow list network"
  have h1: "remote_failed ?net 2000"
    by (simp add: remote_failed_def fetchWithTimeout_def)
  have h2: "JSON_parse (or_default (sel_users (storage example_world))) = Inr [example_user]"
    by (simp add: example_world_def)
  have h3: "JSON_parse (or_default (sel_responses (storage example_world))) =
     Inr [example_known, example_dangling]"
    by (simp add: example_world_def)
  from fetchAllResponses_degraded [OF h1 h2 h3] h1 h2 h3 show ?thesis by simp
qed

text \<open>
  Claim C6 (sort order). In the report of the degraded mode, a row with a later timestamp
  stands before every row with an earlier one: whenever the row at position \<open>i\<close> is
  later than the row at position \<open>j\<close>, \<open>i < j\<close>. Rows of equal timestamps are not
  constrained by the statement.
\<close>

theorem fetchAllResponses_sorted:
  assumes "remote_failed net 2000"
    and "JSON_parse (or_default (sel_users (storage w))) = Inr users"
    and "JSON_parse (or_default (sel_responses (storage w))) = Inr responses"
  shows "\<exists>rep. fst (fetchAllResponses w net) = Inr rep \<and>
           (\<forall>i j. i < length (data rep) \<and> j < length (data rep) \<and>
                  getTime (timestamp (data rep ! j)) < getTime (timestamp (data rep ! i))
                  \<longrightarrow> i < j)"
proof -
  let ?rows = "Array_sort by_timestamp_desc (map (joined_row users) responses)"
  have run: "fst (fetchAllResponses w net) = Inr \<lparr>source = ''LOCAL'', data = ?rows\<rparr>"
    using assms by (simp add: fetchAllResponses_failed fetchAllResponses_catch_parsed)
  have ordered: "sorted_wrt newer_first ?rows" by (rule Array_sort_newer_first)
  have "i < j" if "i < length ?rows" "j < length ?rows"
    "getTime (timestamp (?rows ! j)) < getTime (timestamp (?rows ! i))" for i j
  proof (rule ccontr)
    assume "\<not> i < j"
    then consider "i = j" | "j < i" by linarith
    then show False
    proof cases
      case 1
      with that(3) show False by simp
    next
      case 2
      with ordered that(1) have "newer_first (?rows ! j) (?rows ! i)"
        by (simp add: sorted_wrt_iff_nth_less)
      with that(3) show False by simp
    qed
  qed
  with run show ?thesis by simp
qed

theorem fetchAllResponses_sorted_witness:
  "remote_failed (Pending :: JoinedReportRow list network) 2000 \<and>
   JSON_parse (or_default (sel_users (storage example_world))) = Inr [example_user] \<and>
   JSON_parse (or_default (sel_responses (storage example_world))) =
     Inr [example_known, example_dangling] \<and>
   map timestamp (case fst (fetchAllResponses example_world Pending) of
                    Inr rep \<Rightarrow> data rep | Inl e \<Rightarrow> []) = [ISO 2000, ISO 1000] \<and>
   (\<exists>rep. fst (fetchAllResponses example_world Pending) = Inr rep \<and>
      (\<forall>i j. i < length (data rep) \<and> j < length (data rep) \<and>
                  getTime (timestamp (data rep ! j)) < getTime (timestamp (data rep ! i))
                  \<longrightarrow> i < j))"
proof -
  have h1: "remote_failed (Pending :: JoinedReportRow list network) 2000"
    by (rule Pending_failed)
  have h2: "JSON_parse (or_default (sel_users (storage example_world))) = Inr [example_user]"
    by (simp add: example_world_def)
  have h3: "JSON_parse (or_default (sel_responses (storage example_world))) =
     Inr [example_known, example_dangling]"
    by (simp add: example_world_def)
  have order: "map timestamp (case fst (fetchAllResponses example_world Pending) of
                    Inr rep \<Rightarrow> data rep | Inl e \<Rightarrow> []) = [ISO 2000, ISO 1000]"
    by (simp add: fetchAllResponses_failed [OF h1] fetchAllResponses_catch_parsed [OF h2 h3]
        Array_sort_def joined_row_def by_timestamp_desc_def example_known_def
        example_dangling_def)
  from fetchAllResponses_sorted [OF h1 h2 h3] h1 h2 h3 order show ?thesis by blast
qed

section \<open>createUser\<close>

text \<open>
  Claim C2 (no exception), as the code has it. \<open>createUser\<close> returns a user when the
  \<open>sel_users\<close> entry parses in case the fallback is taken (the remote call failed), and a
  response that is \<open>ok\<close> carries a JSON body (the remote contract). The entry parses
  when it is absent, the empty string, or the JSON text of an array.
\<close>

theorem createUser_returns_user:
  assumes "remote_failed net 1500 \<longrightarrow>
             (\<exists>users. JSON_parse (or_default (sel_users (storage w))) = Inr users)"
    and "\<forall>ms res. net = Settles ms (Resolves res) \<and> ok res \<longrightarrow> body res \<noteq> None"
  shows "\<exists>u. fst (createUser w net n a g ge) = Inr u"
proof (cases "remote_failed net 1500")
  case True
  with assms(1) obtain users where
    "JSON_parse (or_default (sel_users (storage w))) = Inr users" by blast
  with True show ?thesis
    by (simp add: createUser_failed createUser_catch_parsed)
next
  case False
  then obtain res where res: "fetchWithTimeout net 1500 = Inr res" "ok res"
    by (auto simp: remote_failed_def split: sum.splits)
  then obtain ms where "net = Settles ms (Resolves res)"
    by (auto simp: fetchWithTimeout_def split: network.splits settlement.splits if_splits)
  with assms(2) res obtain u where "body res = Some u" by blast
  with res show ?thesis
    by (simp add: createUser_def createUser_try_def json_def)
qed

theorem createUser_returns_user_witness:
  "remote_failed (Pending :: User network) 1500 \<and>
   JSON_parse (or_default (sel_users (storage example_world))) = Inr [example_user] \<and>
   (\<exists>u. fst (createUser example_world Pending ''B'' ''b'' ''G4'' ''M'') = Inr u) \<and>
   \<not> remote_failed (Settles 10 (Resolves \<lparr>ok = True, body = Some example_user\<rparr>)) 1500 \<and>
   (\<exists>u. fst (createUser corrupt_world
                 (Settles 10 (Resolves \<lparr>ok = True, body = Some example_user\<rparr>))
                 ''B'' ''b'' ''G4'' ''M'') = Inr u)"
proof -
  let ?net = "Settles 10 (Resolves \<lparr>ok = True, body = Some example_user\<rparr>)"
  have h: "JSON_parse (or_default (sel_users (storage example_world))) = Inr [example_user]"
    by (simp add: example_world_def)
  have fallback: "\<exists>u. fst (createUser example_world Pending ''B'' ''b'' ''G4'' ''M'') = Inr u"
    by (rule createUser_returns_user) (simp_all add: h)
  have up: "\<not> remote_failed ?net 1500"
    by (simp add: remote_failed_def fetchWithTimeout_def)
  have remote: "\<exists>u. fst (createUser corrupt_world ?net ''B'' ''b'' ''G4'' ''M'') = Inr u"
    by (rule createUser_returns_user) (simp_all add: up)
  from h fallback up remote show ?thesis by (simp add: Pending_failed)
qed

text \<open>
  With a \<open>sel_users\<close> entry that is not JSON and no answer from the remote side, the call
  rejects with the \<open>SyntaxError\<close> of \<open>JSON.parse\<close>, thrown inside the \<open>catch\<close> clause.
\<close>

theorem createUser_corrupt_storage_counterexample:
  "createUser corrupt_world Pending ''B'' ''b'' ''G4'' ''M'' = (Inl SyntaxError, corrupt_world)"
  by (simp add: createUser_def createUser_try_def fetchWithTimeout_def createUser_catch_def
      corrupt_world_def)

text \<open>
  Claim C3 (fallback persistence of \<open>createUser\<close>). When the remote call failed and the
  \<open>sel_users\<close> entry parses to \<open>users\<close>, the call returns the user built from its
  arguments with the clock reading as id, and afterwards the \<open>sel_users\<close> entry is the
  JSON text of \<open>users\<close> with that user appended, so that parsing the entry gives the
  user back.
\<close>

theorem createUser_fallback_persists:
  assumes "remote_failed net 1500"
    and "JSON_parse (or_default (sel_users (storage w))) = Inr users"
  shows "\<exists>u w'. createUser w net n a g ge = (Inr u, w') \<and>
           u = \<lparr>u_id = fst (Date_now w), u_name = n, u_avatar = a, u_grade = g, u_gender = ge\<rparr> \<and>
           sel_users (storage w') = Some (JSON_stringify (users @ [u])) \<and>
           JSON_parse (or_default (sel_users (storage w'))) = Inr (users @ [u])"
  using assms
  by (simp add: createUser_failed createUser_catch_parsed Date_now_def setItem_sel_users_def
      JSON_stringify_def)

theorem createUser_fallback_persists_witness:
  "remote_failed (Settles 1500 (Resolves \<lparr>ok = True, body = Some example_user\<rparr>)) 1500 \<and>
   JSON_parse (or_default (sel_users (storage example_world))) = Inr [example_user] \<and>
   (\<exists>w'. createUser example_world (Settles 1500 (Resolves \<lparr>ok = True, body = Some example_user\<rparr>))
            ''B'' ''b'' ''G4'' ''M'' =
          (Inr \<lparr>u_id = 0, u_name = ''B'', u_avatar = ''b'', u_grade = ''G4'', u_gender = ''M''\<rparr>, w') \<and>
      JSON_parse (or_default (sel_users (storage w'))) =
        Inr [example_user,
             \<lparr>u_id = 0, u_name = ''B'', u_avatar = ''b'', u_grade = ''G4'', u_gender = ''M''\<rparr>])"
proof -
  let ?net = "Settles 1500 (Resolves \<lparr>ok = True, body = Some example_user\<rparr>)"
  have h1: "remote_failed ?net 1500"
    by (simp add: remote_failed_def fetchWithTimeout_def)
  have h2: "JSON_parse (or_default (sel_users (storage example_world))) = Inr [example_user]"
    by (simp add: example_world_def)
  have now: "fst (Date_now example_world) = 0"
    by (simp add: Date_now_def example_world_def)
  from createUser_fallback_persists [OF h1 h2, of "''B''" "''b''" "''G4''" "''M''"] now
  have "\<exists>w'. createUser example_world ?net ''B'' ''b'' ''G4'' ''M'' =
          (Inr \<lparr>u_id = 0, u_name = ''B'', u_avatar = ''b'', u_grade = ''G4'', u_gender = ''M''\<rparr>, w') \<and>
      JSON_parse (or_default (sel_users (storage w'))) =
        Inr [example_user,
             \<lparr>u_id = 0, u_name = ''B'', u_avatar = ''b'', u_grade = ''G4'', u_gender = ''M''\<rparr>]"
    by auto
  with h1 h2 show ?thesis by blast
qed

section \<open>submitResponse\<close>

text \<open>
  Claim C4 (fallback persistence of \<open>submitResponse\<close>). When the remote call failed and
  the \<open>sel_responses\<close> entry parses to \<open>responses\<close>, the call returns an acknowledgement
  with status \<open>saved_local\<close>, and afterwards the entry parses to \<open>responses\<close> followed by
  a record whose \<open>user_id\<close>, \<open>question_id\<close> and \<open>score\<close> are the call's arguments.
\<close>

theorem submitResponse_fallback_persists:
  assumes "remote_failed net 800"
    and "JSON_parse (or_default (sel_responses (storage w))) = Inr responses"
  shows "\<exists>ack w' rec. submitResponse w net userId questionId sc = (Inr ack, w') \<and>
           status ack = ''saved_local'' \<and>
           JSON_parse (or_default (sel_responses (storage w'))) = Inr (responses @ [rec]) \<and>
           r_user_id rec = userId \<and> r_question_id rec = questionId \<and> r_score rec = sc"
  using assms
  by (simp add: submitResponse_failed submitResponse_catch_parsed setItem_sel_responses_def
      JSON_stringify_def)

theorem submitResponse_fallback_persists_witness:
  "remote_failed (Settles 20 Rejects :: Ack network) 800 \<and>
   JSON_parse (or_default (sel_responses (storage corrupt_world))) = Inr [] \<and>
   (\<exists>ack w' rec. submitResponse corrupt_world (Settles 20 Rejects) 1 5 3 = (Inr ack, w') \<and>
           status ack = ''saved_local'' \<and>
           JSON_parse (or_default (sel_responses (storage w'))) = Inr [rec] \<and>
           r_user_id rec = 1 \<and> r_question_id rec = 5 \<and> r_score rec = 3)"
proof -
  have h1: "remote_failed (Settles 20 Rejects :: Ack network) 800"
    by (simp add: remote_failed_def fetchWithTimeout_def)
  have h2: "JSON_parse (or_default (sel_responses (storage corrupt_world))) = Inr []"
    by (simp add: corrupt_world_def)
  from submitResponse_fallback_persists [OF h1 h2, of 1 5 3] h1 h2 show ?thesis by simp
qed

text \<open>
  Claim C10 (two clock readings). In the fallback of \<open>submitResponse\<close> the stored record
  takes its id from the first clock reading of the call and the acknowledgement takes its
  id from the third (the second is the record's timestamp). In a run where these two
  readings differ, the returned id is not the id of the record that was stored.
\<close>

theorem ack_id_mismatch:
  assumes "remote_failed net 800"
    and "JSON_parse (or_default (sel_responses (storage w))) = Inr responses"
    and "ticks w (reads w) \<noteq> ticks w (reads w + 2)"
  shows "\<exists>ack w' rec. submitResponse w net userId questionId sc = (Inr ack, w') \<and>
           JSON_parse (or_default (sel_responses (storage w'))) = Inr (responses @ [rec]) \<and>
           r_id rec = ticks w (reads w) \<and> ack_id ack = ticks w (reads w + 2) \<and>
           ack_id ack \<noteq> r_id rec"
  using assms
  by (simp add: submitResponse_failed submitResponse_catch_parsed setItem_sel_responses_def
      JSON_stringify_def)

theorem ack_id_mismatch_witness:
  "remote_failed (Pending :: Ack network) 800 \<and>
   JSON_parse (or_default (sel_responses (storage example_world))) =
     Inr [example_known, example_dangling] \<and>
   ticks example_world (reads example_world) \<noteq> ticks example_world (reads example_world + 2) \<and>
   (\<exists>ack w' rec. submitResponse example_world Pending 1 6 4 = (Inr ack, w') \<and>
           JSON_parse (or_default (sel_responses (storage w'))) =
             Inr ([example_known, example_dangling] @ [rec]) \<and>
           r_id rec = 0 \<and> ack_id ack = 2 \<and> ack_id ack \<noteq> r_id rec)"
proof -
  have h1: "remote_failed (Pending :: Ack network) 800" by (rule Pending_failed)
  have h2: "JSON_parse (or_default (sel_responses (storage example_world))) =
     Inr [example_known, example_dangling]"
    by (simp add: example_world_def)
  have h3: "ticks example_world (reads example_world) \<noteq>
     ticks example_world (reads example_world + 2)"
    by (simp add: example_world_def)
  have t: "ticks example_world (reads example_world) = 0"
    "ticks example_world (reads example_world + 2) = 2"
    by (simp_all add: example_world_def)
  from ack_id_mismatch [OF h1 h2 h3, of 1 6 4] h1 h2 h3 show ?thesis
    unfolding t by blast
qed

section \<open>Failure kinds and time bounds\<close>

lemma remote_failed_kinds:
  "remote_failed Pending timeout"
  "timeout \<le> ms \<Longrightarrow> remote_failed (Settles ms s) timeout"
  "remote_failed (Settles ms Rejects) timeout"
  "\<not> ok res \<Longrightarrow> remote_failed (Settles ms (Resolves res)) timeout"
  by (simp_all add: remote_failed_def fetchWithTimeout_def)

text \<open>
  Claim C7 (uniform failure collapse, per-operation bounds). Time is the delay, in
  milliseconds, after which the \<open>fetch\<close> promise settles. For each operation: a promise
  that never settles, one that settles at or after the operation's bound (1500, 800,
  2000), a network error and a response that is not \<open>ok\<close> all give the result of the
  operation's \<open>catch\<close> clause on the same arguments; an \<open>ok\<close> response that arrives
  before the bound gives the remote answer and leaves the world as it was. The result
  types of the two paths are the same (\<open>User\<close>, \<open>Ack\<close>, \<open>Report\<close>).
\<close>

theorem failure_collapse:
  "createUser w Pending n a g ge = createUser_catch w n a g ge \<and>
   (1500 \<le> ms \<longrightarrow> createUser w (Settles ms s1) n a g ge = createUser_catch w n a g ge) \<and>
   createUser w (Settles ms Rejects) n a g ge = createUser_catch w n a g ge \<and>
   (\<not> ok res1 \<longrightarrow>
      createUser w (Settles ms (Resolves res1)) n a g ge = createUser_catch w n a g ge) \<and>
   (ms < 1500 \<and> ok res1 \<longrightarrow>
      createUser w (Settles ms (Resolves res1)) n a g ge = (json res1, w)) \<and>
   submitResponse w Pending u q sc = submitResponse_catch w u q sc \<and>
   (800 \<le> ms \<longrightarrow> submitResponse w (Settles ms s2) u q sc = submitResponse_catch w u q sc) \<and>
   submitResponse w (Settles ms Rejects) u q sc = submitResponse_catch w u q sc \<and>
   (\<not> ok res2 \<longrightarrow>
      submitResponse w (Settles ms (Resolves res2)) u q sc = submitResponse_catch w u q sc) \<and>
   (ms < 800 \<and> ok res2 \<longrightarrow>
      submitResponse w (Settles ms (Resolves res2)) u q sc = (json res2, w)) \<and>
   fetchAllResponses w Pending = fetchAllResponses_catch w \<and>
   (2000 \<le> ms \<longrightarrow> fetchAllResponses w (Settles ms s3) = fetchAllResponses_catch w) \<and>
   fetchAllResponses w (Settles ms Rejects) = fetchAllResponses_catch w \<and>
   (\<not> ok res3 \<longrightarrow>
      fetchAllResponses w (Settles ms (Resolves res3)) = fetchAllResponses_catch w) \<and>
   (ms < 2000 \<and> ok res3 \<and> body res3 = Some rows \<longrightarrow>
      fetchAllResponses w (Settles ms (Resolves res3)) =
        (Inr \<lparr>source = ''DB'', data = rows\<rparr>, w))"
proof -
  have c: "createUser w (Settles ms (Resolves res1)) n a g ge = (json res1, w)"
    if "ms < 1500" "ok res1"
    using that by (simp add: createUser_def createUser_try_def fetchWithTimeout_def)
  have s: "submitResponse w (Settles ms (Resolves res2)) u q sc = (json res2, w)"
    if "ms < 800" "ok res2"
    using that by (simp add: submitResponse_def submitResponse_try_def fetchWithTimeout_def)
  have f: "fetchAllResponses w (Settles ms (Resolves res3)) =
        (Inr \<lparr>source = ''DB'', data = rows\<rparr>, w)"
    if "ms < 2000" "ok res3" "body res3 = Some rows"
    using that
    by (simp add: fetchAllResponses_def fetchAllResponses_try_def fetchWithTimeout_def json_def)
  show ?thesis
    using c s f
    by (simp add: createUser_failed submitResponse_failed fetchAllResponses_failed
        remote_failed_kinds)
qed

theorem failure_collapse_witness:
  "createUser example_world (Settles 1500 (Resolves \<lparr>ok = True, body = Some example_user\<rparr>))
       ''B'' ''b'' ''G4'' ''M'' =
     createUser_catch example_world ''B'' ''b'' ''G4'' ''M'' \<and>
   createUser example_world (Settles 1499 (Resolves \<lparr>ok = False, body = Some example_user\<rparr>))
       ''B'' ''b'' ''G4'' ''M'' =
     createUser_catch example_world ''B'' ''b'' ''G4'' ''M'' \<and>
   createUser example_world (Settles 1499 (Resolves \<lparr>ok = True, body = Some example_user\<rparr>))
       ''B'' ''b'' ''G4'' ''M'' = (Inr example_user, example_world) \<and>
   submitResponse example_world (Settles 800 (Resolves \<lparr>ok = True, body = Some \<lparr>ack_id = 4, status = ''saved''\<rparr>\<rparr>))
       1 5 3 = submitResponse_catch example_world 1 5 3 \<and>
   submitResponse example_world (Settles 799 (Resolves \<lparr>ok = False, body = None\<rparr>)) 1 5 3 =
     submitResponse_catch example_world 1 5 3 \<and>
   submitResponse example_world (Settles 799 (Resolves \<lparr>ok = True, body = Some \<lparr>ack_id = 4, status = ''saved''\<rparr>\<rparr>))
       1 5 3 = (Inr \<lparr>ack_id = 4, status = ''saved''\<rparr>, example_world) \<and>
   fetchAllResponses example_world (Settles 2000 (Resolves \<lparr>ok = True, body = Some []\<rparr>)) =
     fetchAllResponses_catch example_world \<and>
   fetchAllResponses example_world (Settles 1999 (Resolves \<lparr>ok = False, body = Some []\<rparr>)) =
     fetchAllResponses_catch example_world \<and>
   fetchAllResponses example_world (Settles 1999 (Resolves \<lparr>ok = True, body = Some []\<rparr>)) =
     (Inr \<lparr>source = ''DB'', data = []\<rparr>, example_world)"
proof -
  note at_bound =
    failure_collapse [of example_world "''B''" "''b''" "''G4''" "''M''" 1500
      "Resolves \<lparr>ok = True, body = Some example_user\<rparr>"
      "\<lparr>ok = False, body = Some example_user\<rparr>" 1 5 3]
  note c_bad =
    failure_collapse [of example_world "''B''" "''b''" "''G4''" "''M''" 1499 _
      "\<lparr>ok = False, body = Some example_user\<rparr>"]
  note c_good =
    failure_collapse [of example_world "''B''" "''b''" "''G4''" "''M''" 1499 _
      "\<lparr>ok = True, body = Some example_user\<rparr>"]
  note s_bound =
    failure_collapse [of example_world _ _ _ _ 800 _ _ 1 5 3
      "Resolves \<lparr>ok = True, body = Some \<lparr>ack_id = 4, status = ''saved''\<rparr>\<rparr>"]
  note s_bad =
    failure_collapse [of example_world _ _ _ _ 799 _ _ 1 5 3 _ "\<lparr>ok = False, body = None\<rparr>"]
  note s_good =
    failure_collapse [of example_world _ _ _ _ 799 _ _ 1 5 3 _
      "\<lparr>ok = True, body = Some \<lparr>ack_id = 4, status = ''saved''\<rparr>\<rparr>"]
  note f_bound =
    failure_collapse [of example_world _ _ _ _ 2000 _ _ _ _ _ _ _
      "Resolves \<lparr>ok = True, body = Some []\<rparr>"]
  note f_bad =
    failure_collapse [of example_world _ _ _ _ 1999 _ _ _ _ _ _ _ _
      "\<lparr>ok = False, body = Some []\<rparr>"]
  note f_good =
    failure_collapse [of example_world _ _ _ _ 1999 _ _ _ _ _ _ _ _
      "\<lparr>ok = True, body = Some []\<rparr>" "[]"]
  show ?thesis
    using at_bound c_bad c_good s_bound s_bad s_good f_bound f_bad f_good
    by (simp add: json_def)
qed

section \<open>clearLocalData and the frame of each operation\<close>

text \<open>
  Claim C8 (\<open>clearLocalData\<close> is idempotent and total). Clearing twice gives the world
  that clearing once gives; after clearing both entries are absent; and clearing a world
  in which both are already absent changes nothing. \<open>clearLocalData\<close> has no error
  result: \<open>removeItem\<close> does not throw.
\<close>

theorem clearLocalData_idempotent:
  "clearLocalData (clearLocalData w) = clearLocalData w \<and>
   sel_users (storage (clearLocalData w)) = None \<and>
   sel_responses (storage (clearLocalData w)) = None \<and>
   clearLocalData (w\<lparr>storage := \<lparr>sel_users = None, sel_responses = None, other_keys = m\<rparr>\<rparr>) =
     w\<lparr>storage := \<lparr>sel_users = None, sel_responses = None, other_keys = m\<rparr>\<rparr>"
  by (simp add: clearLocalData_def removeItem_sel_users_def removeItem_sel_responses_def)

lemma createUser_catch_frame:
  "sel_responses (storage (snd (createUser_catch w n a g ge))) = sel_responses (storage w) \<and>
   other_keys (storage (snd (createUser_catch w n a g ge))) = other_keys (storage w)"
  by (simp add: createUser_catch_def Date_now_def setItem_sel_users_def Let_def
      split: sum.splits)

lemma submitResponse_catch_frame:
  "sel_users (storage (snd (submitResponse_catch w u q sc))) = sel_users (storage w) \<and>
   other_keys (storage (snd (submitResponse_catch w u q sc))) = other_keys (storage w)"
  by (simp add: submitResponse_catch_def Date_now_def setItem_sel_responses_def Let_def
      split: sum.splits)

text \<open>
  Claim C9 (frame). Whatever the remote side does and whatever the outcome,
  \<open>createUser\<close> leaves the \<open>sel_responses\<close> entry and every other key as they were,
  \<open>submitResponse\<close> leaves the \<open>sel_users\<close> entry and every other key as they were,
  \<open>fetchAllResponses\<close> leaves the whole storage as it was, and \<open>clearLocalData\<close> removes
  the two entries and leaves every other key as it was.
\<close>

theorem storage_frame:
  "sel_responses (storage (snd (createUser w net1 n a g ge))) = sel_responses (storage w) \<and>
   other_keys (storage (snd (createUser w net1 n a g ge))) = other_keys (storage w) \<and>
   sel_users (storage (snd (submitResponse w net2 u q sc))) = sel_users (storage w) \<and>
   other_keys (storage (snd (submitResponse w net2 u q sc))) = other_keys (storage w) \<and>
   storage (snd (fetchAllResponses w net3)) = storage w \<and>
   storage (clearLocalData w) =
     \<lparr>sel_users = None, sel_responses = None, other_keys = other_keys (storage w)\<rparr>"
proof -
  have c: "sel_responses (storage (snd (createUser w net1 n a g ge))) = sel_responses (storage w) \<and>
   other_keys (storage (snd (createUser w net1 n a g ge))) = other_keys (storage w)"
    using createUser_catch_frame [of w n a g ge]
    by (simp add: createUser_def split: sum.splits)
  have s: "sel_users (storage (snd (submitResponse w net2 u q sc))) = sel_users (storage w) \<and>
   other_keys (storage (snd (submitResponse w net2 u q sc))) = other_keys (storage w)"
    using submitResponse_catch_frame [of w u q sc]
    by (simp add: submitResponse_def split: sum.splits)
  have f: "storage (snd (fetchAllResponses w net3)) = storage w"
    by (simp add: fetchAllResponses_def fetchAllResponses_catch_def Let_def split: sum.splits)
  have k: "storage (clearLocalData w) =
     \<lparr>sel_users = None, sel_responses = None, other_keys = other_keys (storage w)\<rparr>"
    by (simp add: clearLocalData_def removeItem_sel_users_def removeItem_sel_responses_def)
  from c s f k show ?thesis by simp
qed

end
